theory Spec2Isabelle
  imports Complex_Main
begin

section \<open>Numbers of the source language\<close>

text \<open>
  Every quantity of \<^verbatim>\<open>src/src/App.tsx\<close> is a TypeScript \<^verbatim>\<open>number\<close>. The model keeps the
  three non-finite values a \<^verbatim>\<open>number\<close> can take, because \<^verbatim>\<open>Math.log\<close> and
  \<^verbatim>\<open>Math.log10\<close> produce them outside their domain and the arithmetic then carries
  them into the result. A finite number is a real: rounding to 64-bit binary floating
  point and the sign of zero are not modelled, so a literal such as \<^verbatim>\<open>0.60\<close> is the
  rational 6/10 and \<^verbatim>\<open>Math.exp\<close> never overflows or underflows.
\<close>

datatype number = Fin real | PosInf | NegInf | NaN

text \<open>The infinity that carries the sign of a finite factor; zero times infinity is NaN.\<close>

definition signed_inf :: "real \<Rightarrow> number" where
  "signed_inf s = (if 0 < s then PosInf else if s < 0 then NegInf else NaN)"

fun num_neg :: "number \<Rightarrow> number" where
  "num_neg (Fin a) = Fin (- a)"
| "num_neg PosInf = NegInf"
| "num_neg NegInf = PosInf"
| "num_neg NaN = NaN"

fun num_add :: "number \<Rightarrow> number \<Rightarrow> number" where
  "num_add (Fin a) (Fin b) = Fin (a + b)"
| "num_add NaN _ = NaN"
| "num_add _ NaN = NaN"
| "num_add PosInf NegInf = NaN"
| "num_add NegInf PosInf = NaN"
| "num_add PosInf _ = PosInf"
| "num_add NegInf _ = NegInf"
| "num_add _ PosInf = PosInf"
| "num_add _ NegInf = NegInf"

definition num_sub :: "number \<Rightarrow> number \<Rightarrow> number" where
  "num_sub a b = num_add a (num_neg b)"

fun num_mul :: "number \<Rightarrow> number \<Rightarrow> number" where
  "num_mul (Fin a) (Fin b) = Fin (a * b)"
| "num_mul NaN _ = NaN"
| "num_mul _ NaN = NaN"
| "num_mul PosInf (Fin b) = signed_inf b"
| "num_mul NegInf (Fin b) = signed_inf (- b)"
| "num_mul (Fin a) PosInf = signed_inf a"
| "num_mul (Fin a) NegInf = signed_inf (- a)"
| "num_mul PosInf PosInf = PosInf"
| "num_mul PosInf NegInf = NegInf"
| "num_mul NegInf PosInf = NegInf"
| "num_mul NegInf NegInf = PosInf"

text \<open>Division; a zero divisor is taken as positive zero.\<close>

fun num_div :: "number \<Rightarrow> number \<Rightarrow> number" where
  "num_div (Fin a) (Fin b) = (if b = 0 then signed_inf a else Fin (a / b))"
| "num_div NaN _ = NaN"
| "num_div _ NaN = NaN"
| "num_div (Fin a) _ = Fin 0"
| "num_div PosInf (Fin b) = (if b < 0 then NegInf else PosInf)"
| "num_div NegInf (Fin b) = (if b < 0 then PosInf else NegInf)"
| "num_div PosInf PosInf = NaN"
| "num_div PosInf NegInf = NaN"
| "num_div NegInf PosInf = NaN"
| "num_div NegInf NegInf = NaN"

text \<open>The comparisons \<^verbatim>\<open><\<close> and \<^verbatim>\<open><=\<close>; every comparison with NaN is false.\<close>

fun num_lt :: "number \<Rightarrow> number \<Rightarrow> bool" where
  "num_lt (Fin a) (Fin b) = (a < b)"
| "num_lt NaN _ = False"
| "num_lt _ NaN = False"
| "num_lt NegInf NegInf = False"
| "num_lt NegInf _ = True"
| "num_lt PosInf _ = False"
| "num_lt (Fin a) PosInf = True"
| "num_lt (Fin a) NegInf = False"

fun num_le :: "number \<Rightarrow> number \<Rightarrow> bool" where
  "num_le (Fin a) (Fin b) = (a \<le> b)"
| "num_le NaN _ = False"
| "num_le _ NaN = False"
| "num_le NegInf _ = True"
| "num_le PosInf PosInf = True"
| "num_le PosInf _ = False"
| "num_le (Fin a) PosInf = True"
| "num_le (Fin a) NegInf = False"

definition num_gt :: "number \<Rightarrow> number \<Rightarrow> bool" where
  "num_gt a b = num_lt b a"

definition num_ge :: "number \<Rightarrow> number \<Rightarrow> bool" where
  "num_ge a b = num_le b a"

text \<open>\<^verbatim>\<open>Math.min\<close> and \<^verbatim>\<open>Math.max\<close> of two arguments: NaN when either is NaN.\<close>

fun Math_min :: "number \<Rightarrow> number \<Rightarrow> number" where
  "Math_min NaN _ = NaN"
| "Math_min _ NaN = NaN"
| "Math_min a b = (if num_le a b then a else b)"

fun Math_max :: "number \<Rightarrow> number \<Rightarrow> number" where
  "Math_max NaN _ = NaN"
| "Math_max _ NaN = NaN"
| "Math_max a b = (if num_le a b then b else a)"

text \<open>
  \<^verbatim>\<open>Math.log\<close> (natural logarithm) and \<^verbatim>\<open>Math.log10\<close>: NaN below zero, minus infinity
  at zero.
\<close>

fun Math_log :: "number \<Rightarrow> number" where
  "Math_log (Fin x) = (if x < 0 then NaN else if x = 0 then NegInf else Fin (ln x))"
| "Math_log PosInf = PosInf"
| "Math_log NegInf = NaN"
| "Math_log NaN = NaN"

fun Math_log10 :: "number \<Rightarrow> number" where
  "Math_log10 (Fin x) = (if x < 0 then NaN else if x = 0 then NegInf else Fin (log 10 x))"
| "Math_log10 PosInf = PosInf"
| "Math_log10 NegInf = NaN"
| "Math_log10 NaN = NaN"

fun Math_exp :: "number \<Rightarrow> number" where
  "Math_exp (Fin x) = Fin (exp x)"
| "Math_exp PosInf = PosInf"
| "Math_exp NegInf = Fin 0"
| "Math_exp NaN = NaN"

section \<open>The result of the calculation\<close>

text \<open>
  The status labels are string literals in the source; \<^verbatim>\<open>followUpStatus\<close> takes
  CRITICAL, WARNING or ADEQUATE and \<^verbatim>\<open>responseStatus\<close> takes CRITICAL, WARNING, IMPROVE,
  GOOD or EXCELLENT.
\<close>

datatype status = CRITICAL | WARNING | IMPROVE | GOOD | ADEQUATE | EXCELLENT

record CalculationResult =
  currentSales :: number
  currentRevenue :: number
  annualRevenue :: number
  followUpStatus :: status
  followUpLossSales :: number
  followUpLossRevenue :: number
  followUpLossAnnual :: number
  followUpFactor :: number
  responseStatus :: status
  responseLossSales :: number
  responseLossRevenue :: number
  responseLossAnnual :: number
  responseFactor :: number
  totalLossSales :: number
  totalLossRevenue :: number
  totalLossAnnual :: number
  efficiency :: number

section \<open>The loss estimation\<close>

text \<open>
  The body of the memoised \<^verbatim>\<open>result\<close> of \<^verbatim>\<open>App\<close> (lines 285 to 360), which the
  specification calls \<^verbatim>\<open>compute\<close>. Its five arguments are the state variables
  \<^verbatim>\<open>leads\<close>, \<^verbatim>\<open>conversion\<close>, \<^verbatim>\<open>ticket\<close>, \<^verbatim>\<open>followUps\<close> and \<^verbatim>\<open>responseTime\<close>.
  The body is one block of local constants; the two factors and the two status ladders
  are defined on their own first, each named after the constant it sets, and \<open>result\<close>
  puts them together in the order of the source.
\<close>

text \<open>
  Line 290, the pool of leads that did not convert, as a function of the inputs;
  \<open>result\<close> below computes it from its \<^verbatim>\<open>currentSales\<close>.
\<close>

definition nonConvertedLeads :: "number \<Rightarrow> number \<Rightarrow> number" where
  "nonConvertedLeads leads conversion =
     num_sub leads (num_mul leads (num_div conversion (Fin 100)))"

text \<open>Lines 293 to 295: the logarithmic decay over the attempts, capped at ten.\<close>

definition followUpLossFactor :: "number \<Rightarrow> number" where
  "followUpLossFactor followUps =
     (let safeFollowUps = Math_min followUps (Fin 10);
          rawLossPercentage =
            num_sub (Fin 1)
              (num_div (Math_log (num_add safeFollowUps (Fin 1))) (Math_log (Fin 11)))
      in Math_max (Fin 0) rawLossPercentage)"

text \<open>Lines 297 to 300: the status ladder on the follow-up factor.\<close>

definition followUpStatusOf :: "number \<Rightarrow> status" where
  "followUpStatusOf followUpLossFactor' =
     (if num_gt followUpLossFactor' (Fin (60 / 100)) then CRITICAL
      else if num_ge followUpLossFactor' (Fin (30 / 100)) then WARNING
      else ADEQUATE)"

text \<open>Lines 309 to 312: the sigmoid over the decimal logarithm of the minutes.\<close>

definition responseTimeLossFactor :: "number \<Rightarrow> number" where
  "responseTimeLossFactor responseTime =
     (let k = Fin (25 / 10);
          midpoint = Fin (178 / 100);
          timeLog = Math_log10 (num_add responseTime (Fin 1))
      in num_div (Fin 1)
           (num_add (Fin 1)
              (Math_exp (num_mul (num_neg k) (num_sub timeLog midpoint)))))"

text \<open>The status ladder of lines 315 to 324, on the raw minutes.\<close>

definition responseStatusOf :: "number \<Rightarrow> status" where
  "responseStatusOf responseTime =
     (if num_le responseTime (Fin 5) then EXCELLENT
      else if num_le responseTime (Fin 30) then GOOD
      else if num_le responseTime (Fin 60) then WARNING
      else CRITICAL)"

definition result ::
  "number \<Rightarrow> number \<Rightarrow> number \<Rightarrow> number \<Rightarrow> number \<Rightarrow> CalculationResult" where
  "result leads conversion ticket followUps responseTime =
     (let currentSales' = num_mul leads (num_div conversion (Fin 100));
          currentRevenue' = num_mul currentSales' ticket;
          annualRevenue' = num_mul currentRevenue' (Fin 12);
          nonConvertedLeads' = num_sub leads currentSales';
          followUpLossFactor' = followUpLossFactor followUps;
          followUpStatus' = followUpStatusOf followUpLossFactor';
          maxFollowUpRecoverable = num_mul nonConvertedLeads' (Fin (50 / 100));
          followUpRecoverableLeads = num_mul maxFollowUpRecoverable followUpLossFactor';
          followUpLossSales' = num_mul followUpRecoverableLeads (Fin (12 / 100));
          followUpLossRevenue' = num_mul followUpLossSales' ticket;
          responseTimeLossFactor' = responseTimeLossFactor responseTime;
          responseStatus' = responseStatusOf responseTime;
          maxResponseRecoverable = num_mul nonConvertedLeads' (Fin (60 / 100));
          responseRecoverableLeads = num_mul maxResponseRecoverable responseTimeLossFactor';
          responseLossSales' = num_mul responseRecoverableLeads (Fin (15 / 100));
          responseLossRevenue' = num_mul responseLossSales' ticket;
          totalLossSales' = num_add followUpLossSales' responseLossSales';
          totalLossRevenue' = num_add followUpLossRevenue' responseLossRevenue';
          totalPotentialSales = num_add currentSales' totalLossSales';
          efficiency' =
            (if num_gt totalPotentialSales (Fin 0)
             then num_mul (num_div currentSales' totalPotentialSales) (Fin 100)
             else Fin 100)
      in \<lparr> currentSales = currentSales',
           currentRevenue = currentRevenue',
           annualRevenue = annualRevenue',
           followUpStatus = followUpStatus',
           followUpLossSales = followUpLossSales',
           followUpLossRevenue = followUpLossRevenue',
           followUpLossAnnual = num_mul followUpLossRevenue' (Fin 12),
           followUpFactor = followUpLossFactor',
           responseStatus = responseStatus',
           responseLossSales = responseLossSales',
           responseLossRevenue = responseLossRevenue',
           responseLossAnnual = num_mul responseLossRevenue' (Fin 12),
           responseFactor = responseTimeLossFactor',
           totalLossSales = totalLossSales',
           totalLossRevenue = totalLossRevenue',
           totalLossAnnual = num_mul totalLossRevenue' (Fin 12),
           efficiency = efficiency' \<rparr>)"

text \<open>
  The file holds a second copy of \<^verbatim>\<open>App\<close> (lines 1107 to 1670), an earlier revision
  whose \<^verbatim>\<open>result\<close> (lines 1116 to 1181) is the same computation except for the
  response status, which it reads off the computed factor (lines 1144 to 1149).
\<close>

definition responseStatusOf_legacy :: "number \<Rightarrow> status" where
  "responseStatusOf_legacy responseTimeLossFactor' =
     (if num_lt responseTimeLossFactor' (Fin (15 / 100)) then EXCELLENT
      else if num_lt responseTimeLossFactor' (Fin (35 / 100)) then GOOD
      else if num_lt responseTimeLossFactor' (Fin (60 / 100)) then IMPROVE
      else if num_lt responseTimeLossFactor' (Fin (85 / 100)) then WARNING
      else CRITICAL)"

definition result_legacy ::
  "number \<Rightarrow> number \<Rightarrow> number \<Rightarrow> number \<Rightarrow> number \<Rightarrow> CalculationResult" where
  "result_legacy leads conversion ticket followUps responseTime =
     (result leads conversion ticket followUps responseTime)
       \<lparr> responseStatus := responseStatusOf_legacy (responseTimeLossFactor responseTime) \<rparr>"

section \<open>The chart data\<close>

text \<open>
  The composition series \<^verbatim>\<open>pieData\<close> (lines 381 to 384): two slices built from the
  result, of which those with a value above zero are kept.
\<close>

definition BRAND_ORANGE :: string where
  "BRAND_ORANGE = ''#FF6600''"

definition BRAND_ORANGE_LIGHT :: string where
  "BRAND_ORANGE_LIGHT = ''#FF8533''"

record PieSlice =
  name :: string
  "value" :: number
  color :: string

definition pieData :: "CalculationResult \<Rightarrow> PieSlice list" where
  "pieData result' =
     filter (\<lambda>d. num_gt (value d) (Fin 0))
       [\<lparr> name = ''Perda por Follow-up'', value = followUpLossAnnual result',
           color = BRAND_ORANGE_LIGHT \<rparr>,
        \<lparr> name = ''Perda por Tempo'', value = responseLossAnnual result',
           color = BRAND_ORANGE \<rparr>]"

section \<open>The formulas of the specification\<close>

text \<open>
  The two loss curves as the specification writes them, over the reals. They are compared
  below with what the code computes.
\<close>

definition spec_followUp_factor :: "real \<Rightarrow> real" where
  "spec_followUp_factor n = max 0 (1 - ln (min n 10 + 1) / ln 11)"

definition spec_response_factor :: "real \<Rightarrow> real" where
  "spec_response_factor m = 1 / (1 + exp (- (25 / 10) * (log 10 (m + 1) - 178 / 100)))"

text \<open>
  The order of the labels from best to worst, as the status ladders list them; ADEQUATE is
  the best label of the follow-up ladder.
\<close>

definition severity :: "status \<Rightarrow> nat" where
  "severity s = (case s of EXCELLENT \<Rightarrow> 0 | ADEQUATE \<Rightarrow> 0 | GOOD \<Rightarrow> 1 | IMPROVE \<Rightarrow> 2
                  | WARNING \<Rightarrow> 3 | CRITICAL \<Rightarrow> 4)"

text \<open>
  A computed number \<open>x\<close> agrees with a quoted value \<open>v\<close> when it is finite and differs
  from it by at most one part in a thousand.
\<close>

definition approx :: "number \<Rightarrow> real \<Rightarrow> bool" where
  "approx x v = (case x of Fin r \<Rightarrow> \<bar>r - v\<bar> \<le> \<bar>v\<bar> / 1000 | _ \<Rightarrow> False)"

section \<open>The run on finite inputs\<close>

text \<open>
  On finite inputs whose logarithms are defined, the code computes the two curves of
  the specification, and every field of the result is a finite number.
\<close>

lemma followUpLossFactor_Fin:
  assumes "- 1 < f"
  shows "followUpLossFactor (Fin f) = Fin (spec_followUp_factor f)"
proof -
  have "0 < min f 10 + 1" using assms by simp
  then show ?thesis using assms
    by (simp add: followUpLossFactor_def spec_followUp_factor_def Let_def num_sub_def min_def max_def)
qed

lemma responseTimeLossFactor_Fin:
  assumes "- 1 < m"
  shows "responseTimeLossFactor (Fin m) = Fin (spec_response_factor m)"
proof -
  have "0 < 1 + exp (- (25 / 10) * (log 10 (m + 1) - 178 / 100))"
    by (simp add: add_pos_pos)
  then show ?thesis using assms
    by (simp add: responseTimeLossFactor_def spec_response_factor_def Let_def num_sub_def)
qed

lemma followUpFactor_result:
  "followUpFactor (result leads conversion ticket followUps responseTime) =
     followUpLossFactor followUps"
  by (simp add: result_def Let_def)

lemma num_sub_Fin: "num_sub (Fin a) (Fin b) = Fin (a - b)"
  by (simp add: num_sub_def)

lemma num_div_100: "num_div (Fin c) (Fin 100) = Fin (c / 100)"
  by simp

lemma efficiency_Fin:
  "(if num_gt (Fin tps) (Fin 0) then num_mul (num_div (Fin cs) (Fin tps)) (Fin 100)
    else Fin 100) = Fin (if 0 < tps then cs / tps * 100 else 100)"
  by (simp add: num_gt_def)

lemma result_Fin:
  assumes "- 1 < f" and "- 1 < m"
  shows "result (Fin l) (Fin c) (Fin t) (Fin f) (Fin m) =
    (let cs = l * (c / 100);
         nc = l - cs;
         ff = spec_followUp_factor f;
         rf = spec_response_factor m;
         fs = nc * (50 / 100) * ff * (12 / 100);
         rs = nc * (60 / 100) * rf * (15 / 100);
         tps = cs + (fs + rs)
     in \<lparr> currentSales = Fin cs,
          currentRevenue = Fin (cs * t),
          annualRevenue = Fin (cs * t * 12),
          followUpStatus = followUpStatusOf (Fin ff),
          followUpLossSales = Fin fs,
          followUpLossRevenue = Fin (fs * t),
          followUpLossAnnual = Fin (fs * t * 12),
          followUpFactor = Fin ff,
          responseStatus = responseStatusOf (Fin m),
          responseLossSales = Fin rs,
          responseLossRevenue = Fin (rs * t),
          responseLossAnnual = Fin (rs * t * 12),
          responseFactor = Fin rf,
          totalLossSales = Fin (fs + rs),
          totalLossRevenue = Fin (fs * t + rs * t),
          totalLossAnnual = Fin ((fs * t + rs * t) * 12),
          efficiency = Fin (if 0 < tps then cs / tps * 100 else 100) \<rparr>)"
  unfolding result_def Let_def followUpLossFactor_Fin [OF assms(1)]
    responseTimeLossFactor_Fin [OF assms(2)] num_div_100 num_mul.simps(1) num_sub_Fin
    num_add.simps(1) efficiency_Fin
  by (rule refl)

lemma result_fields:
  assumes "- 1 < f" and "- 1 < m"
    and "cs = l * (c / 100)" and "nc = l - cs"
    and "ff = spec_followUp_factor f" and "rf = spec_response_factor m"
    and "fs = nc * (50 / 100) * ff * (12 / 100)"
    and "rs = nc * (60 / 100) * rf * (15 / 100)"
  shows "currentSales (result (Fin l) (Fin c) (Fin t) (Fin f) (Fin m)) = Fin cs"
    and "followUpFactor (result (Fin l) (Fin c) (Fin t) (Fin f) (Fin m)) = Fin ff"
    and "responseFactor (result (Fin l) (Fin c) (Fin t) (Fin f) (Fin m)) = Fin rf"
    and "followUpLossSales (result (Fin l) (Fin c) (Fin t) (Fin f) (Fin m)) = Fin fs"
    and "responseLossSales (result (Fin l) (Fin c) (Fin t) (Fin f) (Fin m)) = Fin rs"
    and "totalLossSales (result (Fin l) (Fin c) (Fin t) (Fin f) (Fin m)) = Fin (fs + rs)"
    and "efficiency (result (Fin l) (Fin c) (Fin t) (Fin f) (Fin m)) =
           Fin (if 0 < cs + (fs + rs) then cs / (cs + (fs + rs)) * 100 else 100)"
    and "followUpLossRevenue (result (Fin l) (Fin c) (Fin t) (Fin f) (Fin m)) = Fin (fs * t)"
    and "responseLossRevenue (result (Fin l) (Fin c) (Fin t) (Fin f) (Fin m)) = Fin (rs * t)"
    and "totalLossRevenue (result (Fin l) (Fin c) (Fin t) (Fin f) (Fin m)) =
           Fin (fs * t + rs * t)"
    and "followUpLossAnnual (result (Fin l) (Fin c) (Fin t) (Fin f) (Fin m)) =
           Fin (fs * t * 12)"
    and "responseLossAnnual (result (Fin l) (Fin c) (Fin t) (Fin f) (Fin m)) =
           Fin (rs * t * 12)"
    and "totalLossAnnual (result (Fin l) (Fin c) (Fin t) (Fin f) (Fin m)) =
           Fin ((fs * t + rs * t) * 12)"
    and "currentRevenue (result (Fin l) (Fin c) (Fin t) (Fin f) (Fin m)) = Fin (cs * t)"
    and "annualRevenue (result (Fin l) (Fin c) (Fin t) (Fin f) (Fin m)) = Fin (cs * t * 12)"
    and "followUpStatus (result (Fin l) (Fin c) (Fin t) (Fin f) (Fin m)) =
           followUpStatusOf (Fin ff)"
  unfolding assms(3-) result_Fin [OF assms(1,2)] Let_def
  by (simp_all only: CalculationResult.select_convs)

lemma nonConvertedLeads_Fin: "nonConvertedLeads (Fin l) (Fin c) = Fin (l - l * (c / 100))"
  unfolding nonConvertedLeads_def num_div_100 num_mul.simps(1) num_sub_Fin by (rule refl)

lemma num_mul_12_distrib:
  "num_mul (num_add a b) (Fin 12) = num_add (num_mul a (Fin 12)) (num_mul b (Fin 12))"
  by (cases a; cases b) (simp_all add: signed_inf_def)

section \<open>The two loss curves\<close>

lemma spec_followUp_factor_range: "0 \<le> spec_followUp_factor f" 
  by (simp add: spec_followUp_factor_def)

lemma spec_followUp_factor_le1:
  assumes "0 \<le> f" shows "spec_followUp_factor f \<le> 1"
proof -
  have "0 \<le> ln (min f 10 + 1)" using assms by simp
  then have "0 \<le> ln (min f 10 + 1) / ln 11" by simp
  then show ?thesis by (simp add: spec_followUp_factor_def)
qed

lemma spec_followUp_factor_antimono:
  assumes "- 1 < a" "a \<le> b"
  shows "spec_followUp_factor b \<le> spec_followUp_factor a"
proof -
  have "0 < min a 10 + 1" "min a 10 + 1 \<le> min b 10 + 1" using assms by simp_all
  then have "ln (min a 10 + 1) \<le> ln (min b 10 + 1)" by simp
  then have "ln (min a 10 + 1) / ln 11 \<le> ln (min b 10 + 1) / ln 11"
    by (simp add: divide_right_mono)
  then show ?thesis by (simp add: spec_followUp_factor_def)
qed

lemma spec_followUp_factor_0: "spec_followUp_factor 0 = 1"
  by (simp add: spec_followUp_factor_def)

lemma spec_followUp_factor_ge10:
  assumes "10 \<le> a" shows "spec_followUp_factor a = 0"
  using assms by (simp add: spec_followUp_factor_def)

lemma spec_response_factor_pos: "0 < spec_response_factor m"
  by (simp add: spec_response_factor_def add_pos_pos)

lemma spec_response_factor_less1: "spec_response_factor m < 1"
  by (simp add: spec_response_factor_def add_pos_pos)

lemma spec_response_factor_strict_mono:
  assumes "- 1 < m" "m < m'"
  shows "spec_response_factor m < spec_response_factor m'"
proof -
  define a where "a = exp (- (25 / 10) * (log 10 (m + 1) - 178 / 100))"
  define b where "b = exp (- (25 / 10) * (log 10 (m' + 1) - 178 / 100))"
  have "log 10 (m + 1) < log 10 (m' + 1)" using assms by simp
  then have "b < a" by (simp add: a_def b_def)
  moreover have "0 < b" by (simp add: b_def)
  ultimately have "1 / (1 + a) < 1 / (1 + b)"
    by (simp add: field_simps)
  then show ?thesis
    by (simp add: spec_response_factor_def a_def b_def)
qed

section \<open>The pool of leads and the efficiency\<close>

lemma pool_nonneg:
  fixes l c :: real
  assumes "0 \<le> l" and "c \<le> 100"
  shows "0 \<le> l - l * (c / 100)"
proof -
  have "l * (c / 100) \<le> l * 1" using assms by (intro mult_left_mono) simp_all
  then show ?thesis by simp
qed

lemma pool_neg:
  fixes l c :: real
  assumes "0 < l" and "100 < c"
  shows "l - l * (c / 100) < 0"
proof -
  have "l * 1 < l * (c / 100)" using assms by (intro mult_strict_left_mono) simp_all
  then show ?thesis by simp
qed

lemma pool_pos:
  fixes l c :: real
  assumes "0 < l" and "c < 100"
  shows "0 < l - l * (c / 100)"
proof -
  have "l * (c / 100) < l * 1" using assms by (intro mult_strict_left_mono) simp_all
  then show ?thesis by simp
qed

lemma followUp_sales_eq:
  fixes nc ff :: real
  shows "nc * (50 / 100) * ff * (12 / 100) = (nc * ff) * (6 / 100)"
  by simp

lemma response_sales_eq:
  fixes nc rf :: real
  shows "nc * (60 / 100) * rf * (15 / 100) = (nc * rf) * (9 / 100)"
  by simp

lemma potential_sales_pos:
  fixes x l :: real
  assumes "l < x" and "0 < l"
  shows "0 < x + (l - x) * (15 / 100)"
  using assms by (simp add: field_simps)

lemma losses_neg:
  fixes l c ff rf cs nc fs rs :: real
  assumes "0 < l" and "100 < c" and "0 \<le> ff" and "ff \<le> 1" and "0 < rf" and "rf < 1"
    and cs: "cs = l * (c / 100)" and nc: "nc = l - cs"
    and fs: "fs = nc * (50 / 100) * ff * (12 / 100)"
    and rs: "rs = nc * (60 / 100) * rf * (15 / 100)"
  shows "nc < 0" and "fs \<le> 0" and "0 < ff \<Longrightarrow> fs < 0" and "rs < 0"
    and "0 < cs + (fs + rs)" and "cs + (fs + rs) < cs"
proof -
  show neg: "nc < 0" unfolding nc cs using assms(1,2) by (rule pool_neg)
  have p: "nc * ff \<le> 0" using neg assms(3) by (simp add: mult_nonpos_nonneg)
  have q: "nc * rf < 0" using neg assms(5) by (simp add: mult_neg_pos)
  have fs': "fs = (nc * ff) * (6 / 100)" unfolding fs by (rule followUp_sales_eq)
  have rs': "rs = (nc * rf) * (9 / 100)" unfolding rs by (rule response_sales_eq)
  show "fs \<le> 0" using p fs' by linarith
  show "fs < 0" if "0 < ff"
  proof -
    have "nc * ff < 0" using neg that by (simp add: mult_neg_pos)
    then show ?thesis using fs' by linarith
  qed
  show "rs < 0" using q rs' by linarith
  have p': "nc * 1 \<le> nc * ff" using neg assms(4) by (intro mult_left_mono_neg) simp_all
  have q': "nc * 1 \<le> nc * rf" using neg assms(6) by (intro mult_left_mono_neg) simp_all
  have less: "l < cs" using neg by (simp add: nc)
  have "nc * (15 / 100) \<le> fs + rs" using p' q' fs' rs' by linarith
  moreover have "0 < cs + nc * (15 / 100)"
    unfolding nc using less assms(1) by (rule potential_sales_pos)
  ultimately show "0 < cs + (fs + rs)" by linarith
  show "cs + (fs + rs) < cs" using p q fs' rs' by linarith
qed

lemma efficiency_le_100:
  fixes cs tls :: real
  assumes "0 \<le> cs" and "0 \<le> tls"
  shows "(if 0 < cs + tls then cs / (cs + tls) * 100 else 100) \<le> 100"
proof (cases "0 < cs + tls")
  case True
  then show ?thesis using assms by (simp add: field_simps)
next
  case False
  then show ?thesis by simp
qed

lemma efficiency_nonneg:
  fixes cs tps :: real
  assumes "0 \<le> cs"
  shows "0 \<le> (if 0 < tps then cs / tps * 100 else 100)"
  using assms by simp

lemma efficiency_gt_100:
  fixes cs tps :: real
  assumes "0 < tps" and "tps < cs"
  shows "100 < (if 0 < tps then cs / tps * 100 else 100)"
proof -
  show ?thesis using assms by (simp add: field_simps)
qed

lemma response_annual_pos:
  fixes l c t :: real
  assumes "0 < l" and "c < 100" and "0 < t"
  shows "0 < (l - l * (c / 100)) * (60 / 100) * spec_response_factor m * (15 / 100) * t * 12"
proof -
  have "0 < l - l * (c / 100)" using assms(1,2) by (rule pool_pos)
  then have "0 < (l - l * (c / 100)) * (60 / 100)" by (rule mult_pos_pos) simp
  then have "0 < (l - l * (c / 100)) * (60 / 100) * spec_response_factor m"
    using spec_response_factor_pos by (rule mult_pos_pos)
  then have "0 < (l - l * (c / 100)) * (60 / 100) * spec_response_factor m * (15 / 100)"
    by (rule mult_pos_pos) simp
  then have "0 < (l - l * (c / 100)) * (60 / 100) * spec_response_factor m * (15 / 100) * t"
    using assms(3) by (rule mult_pos_pos)
  then show ?thesis by (rule mult_pos_pos) simp
qed

section \<open>Numerical bounds\<close>

text \<open>
  A ratio of logarithms is bounded by a fraction through a comparison of integer powers:
  \<open>p / q \<le> ln a / ln b\<close> follows from \<open>b ^ p \<le> a ^ q\<close>.
\<close>

lemma ln_ratio_lower:
  fixes a b :: real
  assumes "1 < b" and "0 < a" and "b ^ p \<le> a ^ q" and "0 < q"
  shows "real p / real q \<le> ln a / ln b"
proof -
  have "0 < b ^ p" using assms(1) by simp
  then have "ln (b ^ p) \<le> ln (a ^ q)" using assms(3) by simp
  then have "real p * ln b \<le> real q * ln a" by (simp add: ln_realpow)
  moreover have "0 < ln b" using assms(1) by simp
  ultimately show ?thesis using assms(4) by (simp add: field_simps)
qed

lemma ln_ratio_upper:
  fixes a b :: real
  assumes "1 < b" and "0 < a" and "a ^ q \<le> b ^ p" and "0 < q"
  shows "ln a / ln b \<le> real p / real q"
proof -
  have "0 < a ^ q" using assms(2) by simp
  then have "ln (a ^ q) \<le> ln (b ^ p)" using assms(3) by simp
  then have "real q * ln a \<le> real p * ln b" by (simp add: ln_realpow)
  moreover have "0 < ln b" using assms(1) by simp
  ultimately show ?thesis using assms(4) by (simp add: field_simps)
qed

lemma ln4_ln11_lower: "37 / 64 \<le> ln 4 / ln (11::real)"
  using ln_ratio_lower [of 11 4 37 64] by simp

lemma ln4_ln11_upper: "ln 4 / ln (11::real) \<le> 159 / 275"
  using ln_ratio_upper [of 11 4 275 159] by simp

lemma log10_61_lower: "316 / 177 \<le> log 10 (61::real)"
  using ln_ratio_lower [of 10 61 316 177] by (simp add: log_def)

lemma log10_61_upper: "log 10 (61::real) \<le> 341 / 191"
  using ln_ratio_upper [of 10 61 191 341] by (simp add: log_def)

lemma followUp_factor_3: 
  "116 / 275 \<le> spec_followUp_factor 3" "spec_followUp_factor 3 \<le> 27 / 64"
  using ln4_ln11_lower ln4_ln11_upper by (simp_all add: spec_followUp_factor_def)

lemma exp_upper_neg:
  fixes y :: real
  assumes "y \<le> 0"
  shows "exp y \<le> 1 / (1 - y)"
proof -
  have "1 - y \<le> exp (- y)" using exp_ge_add_one_self [of "- y"] by simp
  moreover have "0 < 1 - y" using assms by simp
  ultimately have "1 / exp (- y) \<le> 1 / (1 - y)" by (simp add: frac_le)
  then show ?thesis by (simp add: exp_minus field_simps)
qed

lemma response_factor_60:
  "3587 / 7127 \<le> spec_response_factor 60" "spec_response_factor 60 \<le> 3820 / 7589"
proof -
  define y :: real where "y = - (25 / 10) * (log 10 (60 + 1) - 178 / 100)"
  have y: "- (51 / 3820) \<le> y" "y \<le> - (47 / 3540)"
    using log10_61_lower log10_61_upper by (simp_all add: y_def)
  have lo: "3769 / 3820 \<le> exp y" using exp_ge_add_one_self [of y] y(1) by linarith
  have "exp y \<le> 1 / (1 - y)" using y(2) by (intro exp_upper_neg) simp
  also have "\<dots> \<le> 1 / (1 + 47 / 3540)" using y(2) by (intro divide_left_mono) simp_all
  finally have hi: "exp y \<le> 3540 / 3587" by simp
  have rf: "spec_response_factor 60 = 1 / (1 + exp y)"
    by (simp add: spec_response_factor_def y_def)
  have "1 / (1 + 3540 / 3587) \<le> 1 / (1 + exp y)"
    using hi by (intro divide_left_mono) (simp_all add: add_pos_pos)
  then show "3587 / 7127 \<le> spec_response_factor 60" by (simp add: rf)
  have "1 / (1 + exp y) \<le> 1 / (1 + 3769 / 3820)"
    using lo by (intro divide_left_mono) (simp_all add: add_pos_pos)
  then show "spec_response_factor 60 \<le> 3820 / 7589" by (simp add: rf)
qed

lemma approx_Fin: "approx (Fin r) v = (\<bar>r - v\<bar> \<le> \<bar>v\<bar> / 1000)"
  by (simp add: approx_def)

section \<open>The chart series\<close>

lemma pieData_positive: "\<forall>d \<in> set (pieData r). num_gt (value d) (Fin 0)"
  by (simp add: pieData_def)

lemma pieData_no_followUp:
  assumes "followUpLossAnnual r = Fin 0"
  shows "pieData r =
    (if num_gt (responseLossAnnual r) (Fin 0)
     then [\<lparr> name = ''Perda por Tempo'', value = responseLossAnnual r, color = BRAND_ORANGE \<rparr>]
     else [])"
  using assms by (simp add: pieData_def num_gt_def)

lemma followUps_10_fields:
  assumes "- 1 < m"
  shows "followUpLossAnnual (result (Fin l) (Fin c) (Fin t) (Fin 10) (Fin m)) = Fin 0"
    and "totalLossAnnual (result (Fin l) (Fin c) (Fin t) (Fin 10) (Fin m)) =
           responseLossAnnual (result (Fin l) (Fin c) (Fin t) (Fin 10) (Fin m))"
    and "responseLossAnnual (result (Fin l) (Fin c) (Fin t) (Fin 10) (Fin m)) =
           Fin ((l - l * (c / 100)) * (60 / 100) * spec_response_factor m * (15 / 100) * t * 12)"
proof -
  define cs where "cs = l * (c / 100)"
  define nc where "nc = l - cs"
  define ff where "ff = spec_followUp_factor 10"
  define rf where "rf = spec_response_factor m"
  define fs where "fs = nc * (50 / 100) * ff * (12 / 100)"
  define rs where "rs = nc * (60 / 100) * rf * (15 / 100)"
  have f: "- 1 < (10::real)" by simp
  note R = result_fields [OF f assms cs_def nc_def ff_def rf_def fs_def rs_def, of t]
  have "ff = 0" unfolding ff_def by (rule spec_followUp_factor_ge10) simp
  then have fs: "fs = 0" by (simp add: fs_def)
  show "followUpLossAnnual (result (Fin l) (Fin c) (Fin t) (Fin 10) (Fin m)) = Fin 0"
    by (simp add: R fs)
  show "totalLossAnnual (result (Fin l) (Fin c) (Fin t) (Fin 10) (Fin m)) =
          responseLossAnnual (result (Fin l) (Fin c) (Fin t) (Fin 10) (Fin m))"
    by (simp add: R fs)
  show "responseLossAnnual (result (Fin l) (Fin c) (Fin t) (Fin 10) (Fin m)) =
          Fin ((l - l * (c / 100)) * (60 / 100) * spec_response_factor m * (15 / 100) * t * 12)"
    unfolding R rs_def nc_def cs_def rf_def by (rule refl)
qed

section \<open>The two revisions of the response status\<close>

text \<open>
  At sixty minutes the revision of lines 1144 to 1149 answers IMPROVE, where the ladder on
  the raw minutes answers WARNING: the two ladders are different functions of the inputs.
\<close>

lemma legacy_status_at_60:
  "responseStatus (result_legacy leads conversion ticket followUps (Fin 60)) = IMPROVE"
  "responseStatus (result leads conversion ticket followUps (Fin 60)) = WARNING"
proof -
  have m: "- 1 < (60::real)" by simp
  have "35 / 100 \<le> spec_response_factor 60" "spec_response_factor 60 < 60 / 100"
    using response_factor_60 by linarith+
  then show "responseStatus (result_legacy leads conversion ticket followUps (Fin 60)) = IMPROVE"
    by (simp add: result_legacy_def responseStatusOf_legacy_def responseTimeLossFactor_Fin [OF m])
  show "responseStatus (result leads conversion ticket followUps (Fin 60)) = WARNING"
    by (simp add: result_def Let_def responseStatusOf_def)
qed

section \<open>The claims\<close>

text \<open>
  C1. For every positive \<^verbatim>\<open>responseTimeMinutes\<close> \<open>m\<close> the result carries the response
  factor \<open>1 / (1 + exp (- 2.5 * (log10 (m + 1) - 1.78)))\<close>; the factor lies strictly
  between 0 and 1, and it is strictly increasing: a larger number of minutes \<open>m'\<close> gives a
  strictly larger factor. Finite numbers are reals here, so the statement is about the
  exact values of the formula.
\<close>

theorem response_factor_sigmoid:
  assumes "0 < m" and "m < m'"
  shows "responseFactor (result leads conversion ticket followUps (Fin m)) =
           Fin (1 / (1 + exp (- (25 / 10) * (log 10 (m + 1) - 178 / 100)))) \<and>
         num_lt (Fin 0) (responseFactor (result leads conversion ticket followUps (Fin m))) \<and>
         num_lt (responseFactor (result leads conversion ticket followUps (Fin m))) (Fin 1) \<and>
         num_lt (responseFactor (result leads conversion ticket followUps (Fin m)))
           (responseFactor (result leads conversion ticket followUps (Fin m')))"
proof -
  have rf: "responseFactor (result leads conversion ticket followUps (Fin x)) =
              Fin (spec_response_factor x)" if "- 1 < x" for x
    using that by (simp add: result_def Let_def responseTimeLossFactor_Fin)
  have m: "- 1 < m" and m': "- 1 < m'" using assms by simp_all
  have "spec_response_factor m =
          1 / (1 + exp (- (25 / 10) * (log 10 (m + 1) - 178 / 100)))"
    by (simp add: spec_response_factor_def)
  then show ?thesis
    using spec_response_factor_pos [of m] spec_response_factor_less1 [of m]
      spec_response_factor_strict_mono [OF m assms(2)]
    by (simp add: rf [OF m] rf [OF m'])
qed

theorem response_factor_sigmoid_witness:
  "(0::real) < 60 \<and> (60::real) < 61 \<and>
   num_lt (Fin 0) (responseFactor (result (Fin 100) (Fin 10) (Fin 5000) (Fin 3) (Fin 60))) \<and>
   num_lt (responseFactor (result (Fin 100) (Fin 10) (Fin 5000) (Fin 3) (Fin 60))) (Fin 1) \<and>
   num_lt (responseFactor (result (Fin 100) (Fin 10) (Fin 5000) (Fin 3) (Fin 60)))
     (responseFactor (result (Fin 100) (Fin 10) (Fin 5000) (Fin 3) (Fin 61)))"
proof -
  have h: "(0::real) < 60" "(60::real) < 61" by simp_all
  from response_factor_sigmoid [OF h, of "Fin 100" "Fin 10" "Fin 5000" "Fin 3"] h
  show ?thesis by blast
qed

text \<open>
  C2. For every positive \<^verbatim>\<open>responseTimeMinutes\<close> \<open>m\<close> the response status of the result
  is read off the raw minutes: EXCELLENT up to 5, GOOD above 5 and up to 30, WARNING above
  30 and up to 60, CRITICAL above 60. The mapping is monotonic: a time \<open>m'\<close> that is not
  shorter never gets a better label.
\<close>

theorem response_status_buckets:
  assumes "0 < m" and "m \<le> m'"
  shows "responseStatus (result leads conversion ticket followUps (Fin m)) =
           (if m \<le> 5 then EXCELLENT else if m \<le> 30 then GOOD
            else if m \<le> 60 then WARNING else CRITICAL) \<and>
         severity (responseStatus (result leads conversion ticket followUps (Fin m)))
           \<le> severity (responseStatus (result leads conversion ticket followUps (Fin m')))"
  using assms by (simp add: result_def Let_def responseStatusOf_def severity_def)

theorem response_status_buckets_witness:
  "(0::real) < 60 \<and> (60::real) \<le> 61 \<and>
   responseStatus (result (Fin 100) (Fin 10) (Fin 5000) (Fin 3) (Fin 60)) = WARNING \<and>
   severity (responseStatus (result (Fin 100) (Fin 10) (Fin 5000) (Fin 3) (Fin 60)))
     \<le> severity (responseStatus (result (Fin 100) (Fin 10) (Fin 5000) (Fin 3) (Fin 61)))"
  using response_status_buckets [of 60 61 "Fin 100" "Fin 10" "Fin 5000" "Fin 3"] by auto

text \<open>
  C3. For all inputs the current sales are \<^verbatim>\<open>leads * (conversion / 100)\<close>, the current
  revenue is the sales times the ticket, the annual revenue is twelve times the revenue,
  and both loss models draw on the pool \<^verbatim>\<open>leads - currentSales\<close> of leads that did not
  convert. On finite inputs the baseline figures are finite: the stage cannot fail.
\<close>

theorem baseline_performance:
  "currentSales (result leads conversion ticket followUps responseTime) =
     num_mul leads (num_div conversion (Fin 100)) \<and>
   currentSales (result (Fin l) (Fin c) (Fin t) followUps responseTime) = Fin (l * c / 100) \<and>
   currentRevenue (result (Fin l) (Fin c) (Fin t) followUps responseTime) = Fin (l * c / 100 * t) \<and>
   annualRevenue (result (Fin l) (Fin c) (Fin t) followUps responseTime) = Fin (l * c / 100 * t * 12) \<and>
   nonConvertedLeads (Fin l) (Fin c) = Fin (l - l * c / 100) \<and>
   nonConvertedLeads leads conversion =
     num_sub leads (currentSales (result leads conversion ticket followUps responseTime)) \<and>
   followUpLossSales (result leads conversion ticket followUps responseTime) =
     num_mul (num_mul (num_mul (nonConvertedLeads leads conversion) (Fin (50 / 100)))
                (followUpFactor (result leads conversion ticket followUps responseTime)))
       (Fin (12 / 100)) \<and>
   responseLossSales (result leads conversion ticket followUps responseTime) =
     num_mul (num_mul (num_mul (nonConvertedLeads leads conversion) (Fin (60 / 100)))
                (responseFactor (result leads conversion ticket followUps responseTime)))
       (Fin (15 / 100))"
  by (simp add: result_def Let_def nonConvertedLeads_def num_sub_def)

text \<open>
  C4. For every number \<open>n\<close> of follow-up attempts (a natural number) the follow-up factor
  is \<open>max 0 (1 - ln (min n 10 + 1) / ln 11)\<close>. It is exactly 1 at no attempt and exactly
  0 at ten attempts, it does not increase when the attempts increase from \<open>n\<close> to \<open>n'\<close>,
  it is 0 from ten attempts on, and it always lies between 0 and 1.
\<close>

theorem followUp_factor_decay:
  fixes n n' :: nat
  assumes "n \<le> n'"
  shows "followUpFactor (result leads conversion ticket (Fin (real n)) responseTime) =
           Fin (max 0 (1 - ln (min (real n) 10 + 1) / ln 11)) \<and>
         followUpFactor (result leads conversion ticket (Fin 0) responseTime) = Fin 1 \<and>
         followUpFactor (result leads conversion ticket (Fin 10) responseTime) = Fin 0 \<and>
         num_le (followUpFactor (result leads conversion ticket (Fin (real n')) responseTime))
           (followUpFactor (result leads conversion ticket (Fin (real n)) responseTime)) \<and>
         (10 \<le> n \<longrightarrow>
            followUpFactor (result leads conversion ticket (Fin (real n)) responseTime) = Fin 0) \<and>
         num_le (Fin 0)
           (followUpFactor (result leads conversion ticket (Fin (real n)) responseTime)) \<and>
         num_le (followUpFactor (result leads conversion ticket (Fin (real n)) responseTime))
           (Fin 1)"
proof -
  have ff: "followUpFactor (result leads conversion ticket (Fin x) responseTime) =
              Fin (spec_followUp_factor x)" if "0 \<le> x" for x
    using that by (simp add: followUpFactor_result followUpLossFactor_Fin)
  have le: "real n \<le> real n'" using assms by simp
  have "spec_followUp_factor (real n') \<le> spec_followUp_factor (real n)"
    by (rule spec_followUp_factor_antimono) (use le in simp_all)
  moreover have "spec_followUp_factor (real n) = 0" if "10 \<le> n"
    by (rule spec_followUp_factor_ge10) (use that in simp)
  moreover have "spec_followUp_factor (real n) =
      max 0 (1 - ln (min (real n) 10 + 1) / ln 11)"
    by (simp add: spec_followUp_factor_def)
  ultimately show ?thesis
    using spec_followUp_factor_range [of "real n"] spec_followUp_factor_le1 [of "real n"]
      spec_followUp_factor_0 spec_followUp_factor_ge10 [of 10]
    by (simp add: ff)
qed

theorem followUp_factor_decay_witness:
  "(10::nat) \<le> 12 \<and>
   followUpFactor (result (Fin 100) (Fin 10) (Fin 5000) (Fin (real (10::nat))) (Fin 60)) = Fin 0 \<and>
   num_le (followUpFactor (result (Fin 100) (Fin 10) (Fin 5000) (Fin (real (12::nat))) (Fin 60)))
     (followUpFactor (result (Fin 100) (Fin 10) (Fin 5000) (Fin (real (10::nat))) (Fin 60)))"
  using followUp_factor_decay [of 10 12 "Fin 100" "Fin 10" "Fin 5000" "Fin 60"] by auto

text \<open>
  C5. The follow-up status of the result is a function of the follow-up factor alone:
  CRITICAL when the factor is above 0.60, WARNING when it is from 0.30 to 0.60, both
  ends included, and ADEQUATE otherwise. A factor of exactly 0.60 is WARNING, and so is a
  factor of exactly 0.30. Of the values that are not finite, plus infinity is CRITICAL
  and the other two are ADEQUATE.
\<close>

theorem followUp_status_thresholds:
  "followUpStatus (result leads conversion ticket followUps responseTime) =
     followUpStatusOf (followUpFactor (result leads conversion ticket followUps responseTime)) \<and>
   followUpStatusOf (Fin x) =
     (if 60 / 100 < x then CRITICAL else if 30 / 100 \<le> x then WARNING else ADEQUATE) \<and>
   followUpStatusOf (Fin (60 / 100)) = WARNING \<and>
   followUpStatusOf (Fin (30 / 100)) = WARNING \<and>
   followUpStatusOf PosInf = CRITICAL \<and>
   followUpStatusOf NegInf = ADEQUATE \<and>
   followUpStatusOf NaN = ADEQUATE"
  by (simp add: result_def Let_def followUpStatusOf_def num_gt_def num_ge_def)

text \<open>
  C6, as amended. For all non-negative finite inputs with a positive response time, the
  efficiency is \<^verbatim>\<open>currentSales / (currentSales + totalLossSales) * 100\<close>, and exactly 100
  when that denominator is zero; it is never negative, it is 100 when the total loss of
  sales is zero, and it is at most 100 provided the conversion rate is at most 100.
\<close>

theorem efficiency_score:
  assumes "0 \<le> l" and "0 \<le> c" and "0 \<le> f" and "0 < m"
  shows "efficiency (result (Fin l) (Fin c) (Fin t) (Fin f) (Fin m)) =
           (if num_add (currentSales (result (Fin l) (Fin c) (Fin t) (Fin f) (Fin m)))
                 (totalLossSales (result (Fin l) (Fin c) (Fin t) (Fin f) (Fin m))) = Fin 0
            then Fin 100
            else num_mul
                   (num_div (currentSales (result (Fin l) (Fin c) (Fin t) (Fin f) (Fin m)))
                      (num_add (currentSales (result (Fin l) (Fin c) (Fin t) (Fin f) (Fin m)))
                         (totalLossSales (result (Fin l) (Fin c) (Fin t) (Fin f) (Fin m)))))
                   (Fin 100)) \<and>
         num_le (Fin 0) (efficiency (result (Fin l) (Fin c) (Fin t) (Fin f) (Fin m))) \<and>
         (c \<le> 100 \<longrightarrow>
            num_le (efficiency (result (Fin l) (Fin c) (Fin t) (Fin f) (Fin m))) (Fin 100)) \<and>
         (totalLossSales (result (Fin l) (Fin c) (Fin t) (Fin f) (Fin m)) = Fin 0 \<longrightarrow>
            efficiency (result (Fin l) (Fin c) (Fin t) (Fin f) (Fin m)) = Fin 100)"
proof -
  define cs where "cs = l * (c / 100)"
  define nc where "nc = l - cs"
  define ff where "ff = spec_followUp_factor f"
  define rf where "rf = spec_response_factor m"
  define fs where "fs = nc * (50 / 100) * ff * (12 / 100)"
  define rs where "rs = nc * (60 / 100) * rf * (15 / 100)"
  define e where "e = (if 0 < cs + (fs + rs) then cs / (cs + (fs + rs)) * 100 else 100)"
  have f: "- 1 < f" and m: "- 1 < m" using assms by simp_all
  note R = result_fields [OF f m cs_def nc_def ff_def rf_def fs_def rs_def, of t,
      folded e_def]
  have ff: "0 \<le> ff" "ff \<le> 1"
    unfolding ff_def using assms(3)
    by (simp_all add: spec_followUp_factor_range spec_followUp_factor_le1)
  have rf: "0 < rf" "rf < 1"
    unfolding rf_def by (simp_all add: spec_response_factor_pos spec_response_factor_less1)
  have cs: "0 \<le> cs" unfolding cs_def using assms(1,2) by simp
  have small: "0 \<le> fs + rs" if "c \<le> 100"
  proof -
    have "0 \<le> nc" unfolding nc_def cs_def using assms(1) that by (rule pool_nonneg)
    then have "0 \<le> fs" "0 \<le> rs" unfolding fs_def rs_def using ff(1) rf(1) by simp_all
    then show ?thesis by simp
  qed
  have tps: "0 \<le> cs + (fs + rs)"
  proof (cases "c \<le> 100")
    case True
    then show ?thesis using small cs by simp
  next
    case False
    show ?thesis
    proof (cases "l = 0")
      case True
      then show ?thesis by (simp add: cs_def nc_def fs_def rs_def)
    next
      case False
      then have "0 < l" using assms(1) by simp
      moreover have "100 < c" using \<open>\<not> c \<le> 100\<close> by simp
      ultimately have "0 < cs + (fs + rs)"
        using ff rf cs_def nc_def fs_def rs_def by (rule losses_neg(5))
      then show ?thesis by simp
    qed
  qed
  have formula: "e = (if cs + (fs + rs) = 0 then 100 else cs / (cs + (fs + rs)) * 100)"
    using tps by (simp add: e_def)
  have nonneg: "0 \<le> e" unfolding e_def using cs by (rule efficiency_nonneg)
  have upper: "e \<le> 100" if "c \<le> 100"
    unfolding e_def using cs small [OF that] by (rule efficiency_le_100)
  have noloss: "e = 100" if "fs + rs = 0"
    using that by (simp add: e_def)
  show ?thesis
    unfolding R using formula nonneg upper noloss by simp
qed

theorem efficiency_score_witness:
  "efficiency (result (Fin 100) (Fin 100) (Fin 5000) (Fin 3) (Fin 60)) = Fin 100 \<and>
   num_le (Fin 0) (efficiency (result (Fin 100) (Fin 100) (Fin 5000) (Fin 3) (Fin 60))) \<and>
   num_le (efficiency (result (Fin 100) (Fin 100) (Fin 5000) (Fin 3) (Fin 60))) (Fin 100)"
proof -
  have h: "(0::real) \<le> 100" "(0::real) \<le> 100" "(0::real) \<le> 3" "(0::real) < 60"
    by simp_all
  have c: "(100::real) \<le> 100" by simp
  have f: "- 1 < (3::real)" and m: "- 1 < (60::real)" by simp_all
  have tl: "totalLossSales (result (Fin 100) (Fin 100) (Fin 5000) (Fin 3) (Fin 60)) = Fin 0"
    by (simp add: result_fields(6) [OF f m refl refl refl refl refl refl])
  from efficiency_score [OF h, of 5000] c tl show ?thesis by blast
qed

text \<open>
  Without the bound on the conversion rate the efficiency is not bounded by 100: with
  100 leads and a conversion rate of 200 the pool of leads is negative, so are the
  losses, and the efficiency is above 100.
\<close>

theorem efficiency_score_counterexample:
  "\<not> num_le (efficiency (result (Fin 100) (Fin 200) (Fin 5000) (Fin 3) (Fin 60))) (Fin 100)"
proof -
  define cs :: real where "cs = 100 * (200 / 100)"
  define nc where "nc = 100 - cs"
  define ff where "ff = spec_followUp_factor 3"
  define rf where "rf = spec_response_factor 60"
  define fs where "fs = nc * (50 / 100) * ff * (12 / 100)"
  define rs where "rs = nc * (60 / 100) * rf * (15 / 100)"
  have f: "- 1 < (3::real)" and m: "- 1 < (60::real)" by simp_all
  note R = result_fields [OF f m cs_def nc_def ff_def rf_def fs_def rs_def, of 5000]
  have ff: "0 \<le> ff" "ff \<le> 1"
    unfolding ff_def by (simp_all add: spec_followUp_factor_range spec_followUp_factor_le1)
  have rf: "0 < rf" "rf < 1"
    unfolding rf_def by (simp_all add: spec_response_factor_pos spec_response_factor_less1)
  have l: "(0::real) < 100" and c: "(100::real) < 200" by simp_all
  note L = losses_neg [OF l c ff rf cs_def nc_def fs_def rs_def]
  have "100 < (if 0 < cs + (fs + rs) then cs / (cs + (fs + rs)) * 100 else 100)"
    using L(5,6) by (rule efficiency_gt_100)
  then show ?thesis by (simp add: R)
qed

text \<open>
  C7. For all inputs, each model's loss of revenue is its loss of sales times the ticket
  and its annual loss is twelve times its loss of revenue; the total loss of sales, of
  revenue and of annual revenue is each the sum of the two models' figures.
\<close>

theorem loss_relations:
  "followUpLossRevenue (result leads conversion ticket followUps responseTime) =
     num_mul (followUpLossSales (result leads conversion ticket followUps responseTime)) ticket \<and>
   followUpLossAnnual (result leads conversion ticket followUps responseTime) =
     num_mul (followUpLossRevenue (result leads conversion ticket followUps responseTime)) (Fin 12) \<and>
   responseLossRevenue (result leads conversion ticket followUps responseTime) =
     num_mul (responseLossSales (result leads conversion ticket followUps responseTime)) ticket \<and>
   responseLossAnnual (result leads conversion ticket followUps responseTime) =
     num_mul (responseLossRevenue (result leads conversion ticket followUps responseTime)) (Fin 12) \<and>
   totalLossSales (result leads conversion ticket followUps responseTime) =
     num_add (followUpLossSales (result leads conversion ticket followUps responseTime))
       (responseLossSales (result leads conversion ticket followUps responseTime)) \<and>
   totalLossRevenue (result leads conversion ticket followUps responseTime) =
     num_add (followUpLossRevenue (result leads conversion ticket followUps responseTime))
       (responseLossRevenue (result leads conversion ticket followUps responseTime)) \<and>
   totalLossAnnual (result leads conversion ticket followUps responseTime) =
     num_add (followUpLossAnnual (result leads conversion ticket followUps responseTime))
       (responseLossAnnual (result leads conversion ticket followUps responseTime))"
  by (simp add: result_def Let_def num_mul_12_distrib)

text \<open>
  C8. With the default inputs (100 leads, a conversion rate of 10, a ticket of 5000,
  3 follow-up attempts, a response time of 60 minutes) the current sales are 10, the
  current revenue is 50000 and the annual revenue 600000; the follow-up status is
  WARNING; and each of the follow-up factor 0.4217, the follow-up losses 2.28 and 11385,
  the response factor 0.5033, the response losses 4.08 and 20385, the total loss of
  revenue 31770 and the efficiency 61.2 is met within one part in a thousand.
\<close>

theorem default_scenario:
  "currentSales (result (Fin 100) (Fin 10) (Fin 5000) (Fin 3) (Fin 60)) = Fin 10 \<and>
   currentRevenue (result (Fin 100) (Fin 10) (Fin 5000) (Fin 3) (Fin 60)) = Fin 50000 \<and>
   annualRevenue (result (Fin 100) (Fin 10) (Fin 5000) (Fin 3) (Fin 60)) = Fin 600000 \<and>
   approx (followUpFactor (result (Fin 100) (Fin 10) (Fin 5000) (Fin 3) (Fin 60)))
     (4217 / 10000) \<and>
   followUpStatus (result (Fin 100) (Fin 10) (Fin 5000) (Fin 3) (Fin 60)) = WARNING \<and>
   approx (followUpLossSales (result (Fin 100) (Fin 10) (Fin 5000) (Fin 3) (Fin 60)))
     (228 / 100) \<and>
   approx (followUpLossRevenue (result (Fin 100) (Fin 10) (Fin 5000) (Fin 3) (Fin 60)))
     11385 \<and>
   approx (responseFactor (result (Fin 100) (Fin 10) (Fin 5000) (Fin 3) (Fin 60)))
     (5033 / 10000) \<and>
   approx (responseLossSales (result (Fin 100) (Fin 10) (Fin 5000) (Fin 3) (Fin 60)))
     (408 / 100) \<and>
   approx (responseLossRevenue (result (Fin 100) (Fin 10) (Fin 5000) (Fin 3) (Fin 60)))
     20385 \<and>
   approx (totalLossRevenue (result (Fin 100) (Fin 10) (Fin 5000) (Fin 3) (Fin 60)))
     31770 \<and>
   approx (efficiency (result (Fin 100) (Fin 10) (Fin 5000) (Fin 3) (Fin 60))) (612 / 10)"
proof -
  define cs :: real where "cs = 100 * (10 / 100)"
  define nc where "nc = 100 - cs"
  define ff where "ff = spec_followUp_factor 3"
  define rf where "rf = spec_response_factor 60"
  define fs where "fs = nc * (50 / 100) * ff * (12 / 100)"
  define rs where "rs = nc * (60 / 100) * rf * (15 / 100)"
  define e where "e = (if 0 < cs + (fs + rs) then cs / (cs + (fs + rs)) * 100 else 100)"
  have f: "- 1 < (3::real)" and m: "- 1 < (60::real)" by simp_all
  note R = result_fields [OF f m cs_def nc_def ff_def rf_def fs_def rs_def, of 5000,
      folded e_def]
  have cs: "cs = 10" by (simp add: cs_def)
  have ff: "116 / 275 \<le> ff" "ff \<le> 27 / 64" unfolding ff_def by (rule followUp_factor_3)+
  have rf: "3587 / 7127 \<le> rf" "rf \<le> 3820 / 7589"
    unfolding rf_def by (rule response_factor_60)+
  have fs: "fs = 27 / 5 * ff" by (simp add: fs_def nc_def cs)
  have rs: "rs = 81 / 10 * rf" by (simp add: rs_def nc_def cs)
  have tps: "16354 / 1000 \<le> cs + (fs + rs)" "cs + (fs + rs) \<le> 163554 / 10000"
    using ff rf fs rs cs by linarith+
  have e: "e = 1000 / (cs + (fs + rs))" using tps(1) by (simp add: e_def cs)
  have e_lo: "611388 / 10000 \<le> e" 
    unfolding e using tps by (simp add: field_simps)
  have e_hi: "e \<le> 612 / 10"
    unfolding e using tps by (simp add: field_simps)
  have "currentSales (result (Fin 100) (Fin 10) (Fin 5000) (Fin 3) (Fin 60)) = Fin 10"
    by (simp add: R cs)
  moreover have
    "currentRevenue (result (Fin 100) (Fin 10) (Fin 5000) (Fin 3) (Fin 60)) = Fin 50000"
    by (simp add: R cs)
  moreover have
    "annualRevenue (result (Fin 100) (Fin 10) (Fin 5000) (Fin 3) (Fin 60)) = Fin 600000"
    by (simp add: R cs)
  moreover have
    "approx (followUpFactor (result (Fin 100) (Fin 10) (Fin 5000) (Fin 3) (Fin 60)))
       (4217 / 10000)"
    unfolding R approx_Fin using ff by linarith
  moreover have
    "followUpStatus (result (Fin 100) (Fin 10) (Fin 5000) (Fin 3) (Fin 60)) = WARNING"
    unfolding R using ff by (simp add: followUpStatusOf_def num_gt_def num_ge_def)
  moreover have
    "approx (followUpLossSales (result (Fin 100) (Fin 10) (Fin 5000) (Fin 3) (Fin 60)))
       (228 / 100)"
    unfolding R approx_Fin using ff fs by linarith
  moreover have
    "approx (followUpLossRevenue (result (Fin 100) (Fin 10) (Fin 5000) (Fin 3) (Fin 60)))
       11385"
    unfolding R approx_Fin using ff fs by linarith
  moreover have
    "approx (responseFactor (result (Fin 100) (Fin 10) (Fin 5000) (Fin 3) (Fin 60)))
       (5033 / 10000)"
    unfolding R approx_Fin using rf by linarith
  moreover have
    "approx (responseLossSales (result (Fin 100) (Fin 10) (Fin 5000) (Fin 3) (Fin 60)))
       (408 / 100)"
    unfolding R approx_Fin using rf rs by linarith
  moreover have
    "approx (responseLossRevenue (result (Fin 100) (Fin 10) (Fin 5000) (Fin 3) (Fin 60)))
       20385"
    unfolding R approx_Fin using rf rs by linarith
  moreover have
    "approx (totalLossRevenue (result (Fin 100) (Fin 10) (Fin 5000) (Fin 3) (Fin 60)))
       31770"
    unfolding R approx_Fin using ff rf fs rs by linarith
  moreover have
    "approx (efficiency (result (Fin 100) (Fin 10) (Fin 5000) (Fin 3) (Fin 60))) (612 / 10)"
    unfolding R approx_Fin using e_lo e_hi by linarith
  ultimately show ?thesis by blast
qed

text \<open>
  Closer enclosures of four of these figures: the follow-up factor is 0.4218 to 0.4219,
  the follow-up loss of revenue 11389 to 11391, the total loss of revenue 31772 to 31777
  and the efficiency 61.14 to 61.15.
\<close>

lemma defaults_enclosures:
  "\<exists>ff fr tr e.
     followUpFactor (result (Fin 100) (Fin 10) (Fin 5000) (Fin 3) (Fin 60)) = Fin ff \<and>
     4218 / 10000 \<le> ff \<and> ff \<le> 4219 / 10000 \<and>
     followUpLossRevenue (result (Fin 100) (Fin 10) (Fin 5000) (Fin 3) (Fin 60)) = Fin fr \<and>
     11389 \<le> fr \<and> fr \<le> 11391 \<and>
     totalLossRevenue (result (Fin 100) (Fin 10) (Fin 5000) (Fin 3) (Fin 60)) = Fin tr \<and>
     31772 \<le> tr \<and> tr \<le> 31777 \<and>
     efficiency (result (Fin 100) (Fin 10) (Fin 5000) (Fin 3) (Fin 60)) = Fin e \<and>
     6114 / 100 \<le> e \<and> e \<le> 6115 / 100"
proof -
  define cs :: real where "cs = 100 * (10 / 100)"
  define nc where "nc = 100 - cs"
  define ff where "ff = spec_followUp_factor 3"
  define rf where "rf = spec_response_factor 60"
  define fs where "fs = nc * (50 / 100) * ff * (12 / 100)"
  define rs where "rs = nc * (60 / 100) * rf * (15 / 100)"
  define e where "e = (if 0 < cs + (fs + rs) then cs / (cs + (fs + rs)) * 100 else 100)"
  have f: "- 1 < (3::real)" and m: "- 1 < (60::real)" by simp_all
  note R = result_fields [OF f m cs_def nc_def ff_def rf_def fs_def rs_def, of 5000,
      folded e_def]
  have cs: "cs = 10" by (simp add: cs_def)
  have ff: "116 / 275 \<le> ff" "ff \<le> 27 / 64" unfolding ff_def by (rule followUp_factor_3)+
  have rf: "3587 / 7127 \<le> rf" "rf \<le> 3820 / 7589"
    unfolding rf_def by (rule response_factor_60)+
  have fs: "fs = 27 / 5 * ff" by (simp add: fs_def nc_def cs)
  have rs: "rs = 81 / 10 * rf" by (simp add: rs_def nc_def cs)
  have tps: "16354 / 1000 \<le> cs + (fs + rs)" "cs + (fs + rs) \<le> 163554 / 10000"
    using ff rf fs rs cs by linarith+
  have e: "e = 1000 / (cs + (fs + rs))" using tps(1) by (simp add: e_def cs)
  have e_lo: "6114 / 100 \<le> e" unfolding e using tps by (simp add: field_simps)
  have e_hi: "e \<le> 6115 / 100" unfolding e using tps by (simp add: field_simps)
  have a: "4218 / 10000 \<le> ff" "ff \<le> 4219 / 10000" using ff by linarith+
  have b: "11389 \<le> fs * 5000" "fs * 5000 \<le> 11391" using ff fs by linarith+
  have c: "31772 \<le> fs * 5000 + rs * 5000" "fs * 5000 + rs * 5000 \<le> 31777"
    using ff rf fs rs by linarith+
  show ?thesis
    using R(2) R(8) R(10) R(7) a b c e_lo e_hi by blast
qed

text \<open>
  C9, as amended. With ten follow-up attempts and a positive response time, the annual
  follow-up loss is zero, so the total annual loss is the annual response loss and the
  follow-up slice is filtered out of the composition series; the series holds the
  response slice when the annual response loss is above zero and is empty otherwise.
  With positive leads, a conversion rate under 100 and a positive ticket the total annual
  loss is above zero, also at the shortest response time. The value of every slice of the
  series is above zero.
\<close>

theorem zero_followUp_loss:
  assumes "0 < m"
  shows "followUpLossAnnual (result (Fin l) (Fin c) (Fin t) (Fin 10) (Fin m)) = Fin 0 \<and>
         totalLossAnnual (result (Fin l) (Fin c) (Fin t) (Fin 10) (Fin m)) =
           responseLossAnnual (result (Fin l) (Fin c) (Fin t) (Fin 10) (Fin m)) \<and>
         pieData (result (Fin l) (Fin c) (Fin t) (Fin 10) (Fin m)) =
           (if num_gt (responseLossAnnual (result (Fin l) (Fin c) (Fin t) (Fin 10) (Fin m)))
                 (Fin 0)
            then [\<lparr> name = ''Perda por Tempo'', value =
                       responseLossAnnual (result (Fin l) (Fin c) (Fin t) (Fin 10) (Fin m)),
                     color = BRAND_ORANGE \<rparr>]
            else []) \<and>
         (0 < l \<and> c < 100 \<and> 0 < t \<longrightarrow>
            num_gt (totalLossAnnual (result (Fin l) (Fin c) (Fin t) (Fin 10) (Fin m))) (Fin 0)) \<and>
         (\<forall>d \<in> set (pieData (result (Fin l) (Fin c) (Fin t) (Fin 10) (Fin m))).
            num_gt (value d) (Fin 0))"
proof -
  have m: "- 1 < m" using assms by simp
  note F = followUps_10_fields [OF m, of l c t]
  have "num_gt (totalLossAnnual (result (Fin l) (Fin c) (Fin t) (Fin 10) (Fin m))) (Fin 0)"
    if "0 < l" "c < 100" "0 < t"
    unfolding F(2) F(3) num_gt_def num_lt.simps(1) using that by (rule response_annual_pos)
  then show ?thesis
    using F(1) F(2) pieData_no_followUp [OF F(1)] pieData_positive by blast
qed

theorem zero_followUp_loss_witness:
  "followUpLossAnnual (result (Fin 100) (Fin 10) (Fin 5000) (Fin 10) (Fin 1)) = Fin 0 \<and>
   num_gt (totalLossAnnual (result (Fin 100) (Fin 10) (Fin 5000) (Fin 10) (Fin 1))) (Fin 0) \<and>
   pieData (result (Fin 100) (Fin 10) (Fin 5000) (Fin 10) (Fin 1)) =
     [\<lparr> name = ''Perda por Tempo'', value =
          responseLossAnnual (result (Fin 100) (Fin 10) (Fin 5000) (Fin 10) (Fin 1)),
        color = BRAND_ORANGE \<rparr>]"
proof -
  have h: "(0::real) < 1" by simp
  have p: "(0::real) < 100 \<and> (10::real) < 100 \<and> (0::real) < 5000" by simp
  note T = zero_followUp_loss [OF h, of 100 10 5000]
  from T p have pos:
    "num_gt (totalLossAnnual (result (Fin 100) (Fin 10) (Fin 5000) (Fin 10) (Fin 1))) (Fin 0)"
    by blast
  from T have eq:
    "totalLossAnnual (result (Fin 100) (Fin 10) (Fin 5000) (Fin 10) (Fin 1)) =
       responseLossAnnual (result (Fin 100) (Fin 10) (Fin 5000) (Fin 10) (Fin 1))"
    by blast
  from T have pie:
    "pieData (result (Fin 100) (Fin 10) (Fin 5000) (Fin 10) (Fin 1)) =
       (if num_gt (responseLossAnnual (result (Fin 100) (Fin 10) (Fin 5000) (Fin 10) (Fin 1)))
             (Fin 0)
        then [\<lparr> name = ''Perda por Tempo'', value =
                  responseLossAnnual (result (Fin 100) (Fin 10) (Fin 5000) (Fin 10) (Fin 1)),
                color = BRAND_ORANGE \<rparr>]
        else [])"
    by blast
  from T have zero:
    "followUpLossAnnual (result (Fin 100) (Fin 10) (Fin 5000) (Fin 10) (Fin 1)) = Fin 0"
    by blast
  from pos have "num_gt (responseLossAnnual
      (result (Fin 100) (Fin 10) (Fin 5000) (Fin 10) (Fin 1))) (Fin 0)"
    unfolding eq .
  then show ?thesis using zero pos pie by simp
qed

text \<open>
  With ten follow-up attempts and a response time of one minute, the shortest the input
  widget offers, the default leads, conversion rate and ticket give a total annual loss
  that is not zero and a composition series that is not empty: the response factor is
  positive at every response time.
\<close>

theorem zero_loss_scenario_counterexample:
  "totalLossAnnual (result (Fin 100) (Fin 10) (Fin 5000) (Fin 10) (Fin 1)) \<noteq> Fin 0 \<and>
   pieData (result (Fin 100) (Fin 10) (Fin 5000) (Fin 10) (Fin 1)) \<noteq> []"
proof -
  have m: "- 1 < (1::real)" by simp
  have "0 < (100 - 100 * (10 / 100)) * (60 / 100) * spec_response_factor 1 * (15 / 100) *
              5000 * (12::real)"
    by (rule response_annual_pos) simp_all
  then have pos: "num_gt (responseLossAnnual
      (result (Fin 100) (Fin 10) (Fin 5000) (Fin 10) (Fin 1))) (Fin 0)"
    unfolding followUps_10_fields(3) [OF m] num_gt_def num_lt.simps(1) .
  then have "totalLossAnnual (result (Fin 100) (Fin 10) (Fin 5000) (Fin 10) (Fin 1)) \<noteq> Fin 0"
    unfolding followUps_10_fields(2) [OF m] by (auto simp: num_gt_def)
  moreover have "pieData (result (Fin 100) (Fin 10) (Fin 5000) (Fin 10) (Fin 1)) \<noteq> []"
    using pos by (simp add: pieData_no_followUp [OF followUps_10_fields(1) [OF m]])
  ultimately show ?thesis by simp
qed

text \<open>
  C10. For finite inputs with positive leads and a conversion rate above 100, a
  non-negative number of follow-up attempts and a positive response time: the pool
  \<^verbatim>\<open>leads - currentSales\<close> is negative; the follow-up loss of sales is at most zero, and
  below zero when the follow-up factor is positive; the response factor is positive and
  the response loss of sales is below zero; and the efficiency is above 100.
\<close>

theorem over_conversion:
  assumes "0 < l" and "100 < c" and "0 \<le> f" and "0 < m"
  shows "num_lt (nonConvertedLeads (Fin l) (Fin c)) (Fin 0) \<and>
         num_le (followUpLossSales (result (Fin l) (Fin c) (Fin t) (Fin f) (Fin m))) (Fin 0) \<and>
         (num_gt (followUpFactor (result (Fin l) (Fin c) (Fin t) (Fin f) (Fin m))) (Fin 0) \<longrightarrow>
            num_lt (followUpLossSales (result (Fin l) (Fin c) (Fin t) (Fin f) (Fin m))) (Fin 0)) \<and>
         num_gt (responseFactor (result (Fin l) (Fin c) (Fin t) (Fin f) (Fin m))) (Fin 0) \<and>
         num_lt (responseLossSales (result (Fin l) (Fin c) (Fin t) (Fin f) (Fin m))) (Fin 0) \<and>
         num_gt (efficiency (result (Fin l) (Fin c) (Fin t) (Fin f) (Fin m))) (Fin 100)"
proof -
  define cs where "cs = l * (c / 100)"
  define nc where "nc = l - cs"
  define ff where "ff = spec_followUp_factor f"
  define rf where "rf = spec_response_factor m"
  define fs where "fs = nc * (50 / 100) * ff * (12 / 100)"
  define rs where "rs = nc * (60 / 100) * rf * (15 / 100)"
  have f: "- 1 < f" and m: "- 1 < m" using assms by simp_all
  note R = result_fields [OF f m cs_def nc_def ff_def rf_def fs_def rs_def, of t]
  have ff: "0 \<le> ff" "ff \<le> 1"
    unfolding ff_def using assms(3)
    by (simp_all add: spec_followUp_factor_range spec_followUp_factor_le1)
  have rf: "0 < rf" "rf < 1"
    unfolding rf_def by (simp_all add: spec_response_factor_pos spec_response_factor_less1)
  note L = losses_neg [OF assms(1,2) ff rf cs_def nc_def fs_def rs_def]
  have nc: "nonConvertedLeads (Fin l) (Fin c) = Fin nc"
    unfolding nc_def cs_def by (rule nonConvertedLeads_Fin)
  have "100 < (if 0 < cs + (fs + rs) then cs / (cs + (fs + rs)) * 100 else 100)"
    using L(5,6) by (rule efficiency_gt_100)
  then show ?thesis
    using L(1,2,3,4) rf(1) by (simp add: R nc num_gt_def)
qed

theorem over_conversion_witness:
  "num_lt (nonConvertedLeads (Fin 100) (Fin 200)) (Fin 0) \<and>
   num_lt (followUpLossSales (result (Fin 100) (Fin 200) (Fin 5000) (Fin 3) (Fin 60))) (Fin 0) \<and>
   num_lt (responseLossSales (result (Fin 100) (Fin 200) (Fin 5000) (Fin 3) (Fin 60))) (Fin 0) \<and>
   num_gt (efficiency (result (Fin 100) (Fin 200) (Fin 5000) (Fin 3) (Fin 60))) (Fin 100)"
proof -
  have h: "(0::real) < 100" "(100::real) < 200" "(0::real) \<le> 3" "(0::real) < 60"
    by simp_all
  have f: "- 1 < (3::real)" and m: "- 1 < (60::real)" by simp_all
  have "num_gt (followUpFactor (result (Fin 100) (Fin 200) (Fin 5000) (Fin 3) (Fin 60)))
          (Fin 0)"
    using followUp_factor_3(1)
    by (simp add: result_fields(2) [OF f m refl refl refl refl refl refl] num_gt_def)
  with over_conversion [OF h, of 5000] show ?thesis by blast
qed

end

